theory Spec2Isabelle
  imports Complex_Main
begin

section \<open>JavaScript values used by the formatter\<close>

subsection \<open>Strings\<close>

text \<open>
  Strings are ASCII character lists. \<open>toUpperCase\<close> and \<open>toLowerCase\<close> map the
  26 letters and leave every other character alone.
\<close>

definition toUpperCase_char :: "char \<Rightarrow> char" where
  "toUpperCase_char c =
     (case map_of (zip ''abcdefghijklmnopqrstuvwxyz'' ''ABCDEFGHIJKLMNOPQRSTUVWXYZ'') c of
        Some u \<Rightarrow> u | None \<Rightarrow> c)"

definition toUpperCase :: "string \<Rightarrow> string" where
  "toUpperCase s = map toUpperCase_char s"

definition toLowerCase_char :: "char \<Rightarrow> char" where
  "toLowerCase_char c =
     (case map_of (zip ''ABCDEFGHIJKLMNOPQRSTUVWXYZ'' ''abcdefghijklmnopqrstuvwxyz'') c of
        Some l \<Rightarrow> l | None \<Rightarrow> c)"

definition toLowerCase :: "string \<Rightarrow> string" where
  "toLowerCase s = map toLowerCase_char s"

subsection \<open>Numbers\<close>

text \<open>
  A JavaScript number is a finite value, \<open>NaN\<close> or one of the two infinities. The
  operations used by the formatter (\<open>Math.floor\<close>, \<open>Math.min\<close>, \<open>Math.max\<close>,
  truthiness) are exact on doubles, so finite values are modelled as reals.
\<close>

datatype number = Fin real | NaN | Infinity | NegInfinity

fun truthy_number :: "number \<Rightarrow> bool" where
  "truthy_number (Fin x) = (x \<noteq> 0)"
| "truthy_number NaN = False"
| "truthy_number Infinity = True"
| "truthy_number NegInfinity = True"

text \<open>\<open>a || b\<close> on numbers.\<close>

definition or_number :: "number \<Rightarrow> number \<Rightarrow> number" where
  "or_number a b = (if truthy_number a then a else b)"

text \<open>\<open>Number(x)\<close> for an optional numeric field: \<open>undefined\<close> becomes \<open>NaN\<close>.\<close>

fun Number :: "number option \<Rightarrow> number" where
  "Number None = NaN"
| "Number (Some n) = n"

fun Math_floor :: "number \<Rightarrow> number" where
  "Math_floor (Fin x) = Fin (of_int \<lfloor>x\<rfloor>)"
| "Math_floor n = n"

fun Math_max :: "number \<Rightarrow> number \<Rightarrow> number" where
  "Math_max NaN _ = NaN"
| "Math_max _ NaN = NaN"
| "Math_max Infinity _ = Infinity"
| "Math_max _ Infinity = Infinity"
| "Math_max NegInfinity b = b"
| "Math_max a NegInfinity = a"
| "Math_max (Fin x) (Fin y) = Fin (max x y)"

fun Math_min :: "number \<Rightarrow> number \<Rightarrow> number" where
  "Math_min NaN _ = NaN"
| "Math_min _ NaN = NaN"
| "Math_min NegInfinity _ = NegInfinity"
| "Math_min _ NegInfinity = NegInfinity"
| "Math_min Infinity b = b"
| "Math_min a Infinity = a"
| "Math_min (Fin x) (Fin y) = Fin (min x y)"

text \<open>\<open>Number.isFinite\<close>, and the finite integers.\<close>

fun isFinite :: "number \<Rightarrow> bool" where
  "isFinite (Fin _) = True"
| "isFinite _ = False"

fun isInteger :: "number \<Rightarrow> bool" where
  "isInteger (Fin x) = (x \<in> \<int>)"
| "isInteger _ = False"

text \<open>\<open>a \<le> b\<close> on numbers: false as soon as one side is \<open>NaN\<close>.\<close>

fun le_number :: "number \<Rightarrow> number \<Rightarrow> bool" where
  "le_number NaN _ = False"
| "le_number _ NaN = False"
| "le_number NegInfinity _ = True"
| "le_number _ Infinity = True"
| "le_number Infinity _ = False"
| "le_number _ NegInfinity = False"
| "le_number (Fin x) (Fin y) = (x \<le> y)"

subsection \<open>Object graphs\<close>

text \<open>
  Values that the caller hands over (error details, error context) live in a heap of
  objects with identity: a plain object is its list of own enumerable entries in
  \<open>Object.entries\<close> order, an array is its list of elements, and an \<open>Error\<close> instance
  carries its name, its message and its own enumerable entries. A value is a primitive
  or a reference to a heap object, so sharing and cycles are expressible.
\<close>

type_synonym addr = nat

datatype val =
    VNull
  | VUndefined
  | VStr string
  | VNum number
  | VBool bool
  | VRef addr

datatype hobj =
    HObj "(string \<times> val) list"
  | HArr "val list"
  | HErr string string "(string \<times> val) list"

type_synonym heap = "addr \<Rightarrow> hobj"

section \<open>Error model\<close>

subsection \<open>Classes\<close>

text \<open>
  The error classes of the library, and classes that a user derives from any of them.
  \<open>instanceof_cls c d\<close> holds when an instance whose runtime class is \<open>c\<close> is an
  instance of \<open>d\<close>, that is when \<open>d\<close> is \<open>c\<close> or one of its superclasses.
\<close>

datatype cls =
    Error_cls
  | ApiError_cls
  | ValidationError
  | NotFoundError
  | UnauthorizedError
  | ForbiddenError
  | ConflictError
  | InternalServerError
  | BadRequestError
  | RateLimitError
  | ServiceUnavailableError
  | UnprocessableEntityError
  | UserClass string cls

fun instanceof_cls :: "cls \<Rightarrow> cls \<Rightarrow> bool" where
  "instanceof_cls (UserClass n p) d = (UserClass n p = d \<or> instanceof_cls p d)"
| "instanceof_cls Error_cls d = (d = Error_cls)"
| "instanceof_cls ApiError_cls d = (d = ApiError_cls \<or> d = Error_cls)"
| "instanceof_cls c d = (d = c \<or> d = ApiError_cls \<or> d = Error_cls)"

subsection \<open>ApiError\<close>

type_synonym FieldErrors = "(string \<times> string list) list"
type_synonym ErrorContext = "(string \<times> val) list"

text \<open>
  An error value. \<open>err_class\<close> is the runtime class; \<open>message\<close> and \<open>stack\<close> exist on
  every \<open>Error\<close>; the remaining fields are those that the \<open>ApiError\<close> constructor
  assigns and are read only when the value is an instance of \<open>ApiError\<close>.
\<close>

record error =
  err_class :: cls
  message :: string
  stack :: "string option"
  code :: string
  statusCode :: number
  details :: "addr option"
  fieldErrors :: "FieldErrors option"
  err_context :: "ErrorContext option"
  isOperational :: bool

definition instanceof :: "error \<Rightarrow> cls \<Rightarrow> bool" where
  "instanceof e c = instanceof_cls (err_class e) c"

record ApiErrorOptions =
  opt_code :: "string option"
  opt_statusCode :: "number option"
  opt_details :: "addr option"
  opt_fields :: "FieldErrors option"
  opt_context :: "ErrorContext option"
  opt_isOperational :: "bool option"

definition no_options :: ApiErrorOptions where
  "no_options = \<lparr> opt_code = None, opt_statusCode = None, opt_details = None,
     opt_fields = None, opt_context = None, opt_isOperational = None \<rparr>"

text \<open>
  The constructor of \<open>ApiError\<close>, run for an instance of class \<open>c\<close> (the class named
  after \<open>new\<close>) whose captured stack trace is \<open>st\<close>:
  \<open>this.code = options.code || 'INTERNAL_ERROR'\<close>,
  \<open>this.statusCode = options.statusCode || 500\<close>,
  \<open>this.isOperational = options.isOperational ?? true\<close>.
\<close>

definition ApiError_constructor ::
  "cls \<Rightarrow> string option \<Rightarrow> string \<Rightarrow> ApiErrorOptions \<Rightarrow> error" where
  "ApiError_constructor c st msg options =
     \<lparr> err_class = c,
       message = msg,
       stack = st,
       code = (case opt_code options of
                 Some s \<Rightarrow> if s \<noteq> [] then s else ''INTERNAL_ERROR''
               | None \<Rightarrow> ''INTERNAL_ERROR''),
       statusCode = (case opt_statusCode options of
                 Some n \<Rightarrow> or_number n (Fin 500)
               | None \<Rightarrow> Fin 500),
       details = opt_details options,
       fieldErrors = opt_fields options,
       err_context = opt_context options,
       isOperational = (case opt_isOperational options of Some b \<Rightarrow> b | None \<Rightarrow> True) \<rparr>"

definition new_ApiError :: "string option \<Rightarrow> string \<Rightarrow> ApiErrorOptions \<Rightarrow> error" where
  "new_ApiError st msg options = ApiError_constructor ApiError_cls st msg options"

text \<open>
  The predefined subclasses spread the caller's options and then fix \<open>code\<close> and
  \<open>statusCode\<close> (and, for some, one more field) before calling the base constructor.
\<close>

definition new_ValidationError ::
  "string option \<Rightarrow> string \<Rightarrow> FieldErrors option \<Rightarrow> ApiErrorOptions \<Rightarrow> error" where
  "new_ValidationError st msg fs options =
     ApiError_constructor ValidationError st msg
       (options\<lparr> opt_code := Some ''VALIDATION_ERROR'', opt_statusCode := Some (Fin 400),
                 opt_fields := fs \<rparr>)"

definition new_NotFoundError :: "string option \<Rightarrow> string \<Rightarrow> ApiErrorOptions \<Rightarrow> error" where
  "new_NotFoundError st msg options =
     ApiError_constructor NotFoundError st msg
       (options\<lparr> opt_code := Some ''NOT_FOUND'', opt_statusCode := Some (Fin 404) \<rparr>)"

definition new_UnauthorizedError :: "string option \<Rightarrow> string \<Rightarrow> ApiErrorOptions \<Rightarrow> error" where
  "new_UnauthorizedError st msg options =
     ApiError_constructor UnauthorizedError st msg
       (options\<lparr> opt_code := Some ''UNAUTHORIZED'', opt_statusCode := Some (Fin 401) \<rparr>)"

definition new_ForbiddenError :: "string option \<Rightarrow> string \<Rightarrow> ApiErrorOptions \<Rightarrow> error" where
  "new_ForbiddenError st msg options =
     ApiError_constructor ForbiddenError st msg
       (options\<lparr> opt_code := Some ''FORBIDDEN'', opt_statusCode := Some (Fin 403) \<rparr>)"

definition new_ConflictError :: "string option \<Rightarrow> string \<Rightarrow> ApiErrorOptions \<Rightarrow> error" where
  "new_ConflictError st msg options =
     ApiError_constructor ConflictError st msg
       (options\<lparr> opt_code := Some ''CONFLICT'', opt_statusCode := Some (Fin 409) \<rparr>)"

definition new_InternalServerError :: "string option \<Rightarrow> string \<Rightarrow> ApiErrorOptions \<Rightarrow> error" where
  "new_InternalServerError st msg options =
     ApiError_constructor InternalServerError st msg
       (options\<lparr> opt_code := Some ''INTERNAL_ERROR'', opt_statusCode := Some (Fin 500),
                 opt_isOperational := Some False \<rparr>)"

definition new_BadRequestError :: "string option \<Rightarrow> string \<Rightarrow> ApiErrorOptions \<Rightarrow> error" where
  "new_BadRequestError st msg options =
     ApiError_constructor BadRequestError st msg
       (options\<lparr> opt_code := Some ''BAD_REQUEST'', opt_statusCode := Some (Fin 400) \<rparr>)"

text \<open>
  \<open>RateLimitError\<close> replaces the details by \<open>{ retryAfter }\<close> when a truthy
  \<open>retryAfter\<close> is given; \<open>ra\<close> is the address of that fresh object, or \<open>None\<close>.
\<close>

definition new_RateLimitError ::
  "string option \<Rightarrow> string \<Rightarrow> addr option \<Rightarrow> ApiErrorOptions \<Rightarrow> error" where
  "new_RateLimitError st msg ra options =
     ApiError_constructor RateLimitError st msg
       (options\<lparr> opt_code := Some ''RATE_LIMIT_EXCEEDED'', opt_statusCode := Some (Fin 429),
                 opt_details := ra \<rparr>)"

definition new_ServiceUnavailableError ::
  "string option \<Rightarrow> string \<Rightarrow> ApiErrorOptions \<Rightarrow> error" where
  "new_ServiceUnavailableError st msg options =
     ApiError_constructor ServiceUnavailableError st msg
       (options\<lparr> opt_code := Some ''SERVICE_UNAVAILABLE'', opt_statusCode := Some (Fin 503) \<rparr>)"

definition new_UnprocessableEntityError ::
  "string option \<Rightarrow> string \<Rightarrow> ApiErrorOptions \<Rightarrow> error" where
  "new_UnprocessableEntityError st msg options =
     ApiError_constructor UnprocessableEntityError st msg
       (options\<lparr> opt_code := Some ''UNPROCESSABLE_ENTITY'', opt_statusCode := Some (Fin 422) \<rparr>)"

text \<open>
  \<open>{ ...a, ...b }\<close> on entry lists: the keys of \<open>a\<close> keep their position and take the
  value of \<open>b\<close> where \<open>b\<close> has the key; the other keys of \<open>b\<close> follow.
\<close>

definition spread2 :: "(string \<times> 'a) list \<Rightarrow> (string \<times> 'a) list \<Rightarrow> (string \<times> 'a) list" where
  "spread2 a b =
     map (\<lambda>(k, v). (k, case map_of b k of Some w \<Rightarrow> w | None \<Rightarrow> v)) a
     @ filter (\<lambda>(k, v). map_of a k = None) b"

text \<open>
  \<open>withContext\<close> builds a new \<open>ApiError\<close> (always of the base class) from the fields of
  \<open>this\<close>, with the context extended.
\<close>

definition withContext :: "error \<Rightarrow> string option \<Rightarrow> ErrorContext \<Rightarrow> error" where
  "withContext this st ctx =
     new_ApiError st (message this)
       \<lparr> opt_code = Some (code this),
         opt_statusCode = Some (statusCode this),
         opt_details = details this,
         opt_fields = fieldErrors this,
         opt_context = Some (spread2 (case err_context this of Some c \<Rightarrow> c | None \<Rightarrow> []) ctx),
         opt_isOperational = Some (isOperational this) \<rparr>"

section \<open>Status code mapper\<close>

type_synonym mappings = "(cls \<times> number) list"

definition defaultErrorMappings :: mappings where
  "defaultErrorMappings =
     [(ValidationError, Fin 400),
      (BadRequestError, Fin 400),
      (UnauthorizedError, Fin 401),
      (ForbiddenError, Fin 403),
      (NotFoundError, Fin 404),
      (ConflictError, Fin 409),
      (UnprocessableEntityError, Fin 422),
      (RateLimitError, Fin 429),
      (InternalServerError, Fin 500),
      (ServiceUnavailableError, Fin 503)]"

text \<open>
  The table of success statuses. Its keys are read after \<open>toUpperCase\<close>, and every
  property that the object literal inherits (\<open>constructor\<close>, \<open>toString\<close>, ...) has a
  lower-case letter in its name, so a lookup finds an own key of the table or nothing.
\<close>

definition methodStatusCodes :: "(string \<times> number) list" where
  "methodStatusCodes =
     [(''GET'', Fin 200),
      (''POST'', Fin 201),
      (''PUT'', Fin 200),
      (''PATCH'', Fin 200),
      (''DELETE'', Fin 204),
      (''HEAD'', Fin 200),
      (''OPTIONS'', Fin 200)]"

text \<open>The loop \<open>for (const [ErrorClass, statusCode] of m) if (error instanceof ErrorClass) return statusCode\<close>;
  \<open>None\<close> when the loop ends without returning.\<close>

fun scan_mappings :: "error \<Rightarrow> mappings \<Rightarrow> number option" where
  "scan_mappings e [] = None"
| "scan_mappings e ((ErrorClass, sc) # rest) =
     (if instanceof e ErrorClass then Some sc else scan_mappings e rest)"

definition getStatusCode :: "mappings \<Rightarrow> error \<Rightarrow> number" where
  "getStatusCode customMappings e =
     (if instanceof e ApiError_cls then statusCode e
      else case scan_mappings e customMappings of
             Some sc \<Rightarrow> sc
           | None \<Rightarrow>
               (case scan_mappings e defaultErrorMappings of
                  Some sc \<Rightarrow> sc
                | None \<Rightarrow> Fin 500))"

definition getSuccessStatusCode :: "string \<Rightarrow> bool \<Rightarrow> number" where
  "getSuccessStatusCode method hasData =
     (let upperMethod = toUpperCase method in
      if upperMethod = ''DELETE'' \<and> \<not> hasData then Fin 204
      else case map_of methodStatusCodes upperMethod of
             Some sc \<Rightarrow> or_number sc (Fin 200)
           | None \<Rightarrow> Fin 200)"

section \<open>Pagination\<close>

record PaginationConfig =
  defaultLimit :: number
  maxLimit :: number
  includeLinks :: bool
  baseUrl :: "string option"

text \<open>\<open>Partial<PaginationInput>\<close>: every field may be missing.\<close>

record PartialPaginationInput =
  in_page :: "number option"
  in_limit :: "number option"
  in_total :: "number option"

record PaginationInput =
  page :: number
  limit :: number
  total :: number

definition validatePaginationInput ::
  "PartialPaginationInput \<Rightarrow> PaginationConfig \<Rightarrow> PaginationInput" where
  "validatePaginationInput input config =
     \<lparr> page = Math_max (Fin 1) (Math_floor (or_number (Number (in_page input)) (Fin 1))),
       limit = Math_min (maxLimit config)
                 (Math_max (Fin 1)
                    (Math_floor (or_number (Number (in_limit input)) (defaultLimit config)))),
       total = Math_max (Fin 0) (Math_floor (or_number (Number (in_total input)) (Fin 0))) \<rparr>"

subsection \<open>Cursor extraction\<close>

text \<open>
  A query parameter of the request: missing, a string, a repeated parameter (an array of
  strings) or a nested object.
\<close>

datatype qparam = QUndefined | QString string | QArray "string list" | QNested

record request =
  query_cursor :: qparam
  query_limit :: qparam
  query_page :: qparam

text \<open>
  \<open>safeParseInt\<close>. The built-in \<open>parseInt(value, 10)\<close> is a parameter of the model.
\<close>

definition safeParseInt ::
  "(string \<Rightarrow> number) \<Rightarrow> qparam \<Rightarrow> number \<Rightarrow> number \<Rightarrow> number" where
  "safeParseInt parseInt v fallback mx =
     (case v of
        QString s \<Rightarrow>
          (let num = parseInt s in
           if \<not> isFinite num \<or> num = NaN then fallback
           else Math_min mx (Math_max (Fin 1) num))
      | _ \<Rightarrow> fallback)"

text \<open>The character class \<open>[a-zA-Z0-9+/=_-]\<close>.\<close>

definition cursor_char :: "char \<Rightarrow> bool" where
  "cursor_char c \<longleftrightarrow>
     c \<in> set ''abcdefghijklmnopqrstuvwxyzABCDEFGHIJKLMNOPQRSTUVWXYZ0123456789+/=_-''"

text \<open>\<open>/^[a-zA-Z0-9+/=_-]+$/.test(s)\<close>: one or more characters, all of the class.\<close>

definition cursor_regex_test :: "string \<Rightarrow> bool" where
  "cursor_regex_test s \<longleftrightarrow> s \<noteq> [] \<and> list_all cursor_char s"

definition validateCursor :: "qparam \<Rightarrow> string option" where
  "validateCursor cursor =
     (case cursor of
        QString s \<Rightarrow>
          (if length s = 0 then None
           else if length s > 512 then None
           else if \<not> cursor_regex_test s then None
           else Some s)
      | _ \<Rightarrow> None)"

record CursorParams =
  cp_cursor :: "string option"
  cp_limit :: number

definition extractCursorFromRequest ::
  "(string \<Rightarrow> number) \<Rightarrow> PaginationConfig \<Rightarrow> request \<Rightarrow> CursorParams" where
  "extractCursorFromRequest parseInt config req =
     \<lparr> cp_cursor = validateCursor (query_cursor req),
       cp_limit = Math_min (maxLimit config)
                    (safeParseInt parseInt (query_limit req) (defaultLimit config)
                       (maxLimit config)) \<rparr>"

section \<open>Error serializer\<close>

subsection \<open>Serialized values\<close>

text \<open>
  What the serializer builds is a fresh tree. A \<open>Record<string, unknown>\<close> built by the
  serializer is its entry list, in insertion order.
\<close>

datatype jv =
    JNull
  | JUndefined
  | JStr string
  | JNum number
  | JBool bool
  | JObj "(string \<times> jv) list"
  | JArr "jv list"

type_synonym jrecord = "(string \<times> jv) list"

text \<open>Copying a primitive of the heap into the tree (never applied to a reference).\<close>

fun prim_jv :: "val \<Rightarrow> jv" where
  "prim_jv VNull = JNull"
| "prim_jv VUndefined = JUndefined"
| "prim_jv (VStr s) = JStr s"
| "prim_jv (VNum n) = JNum n"
| "prim_jv (VBool b) = JBool b"
| "prim_jv (VRef a) = JUndefined"

fun truthy :: "jv \<Rightarrow> bool" where
  "truthy JNull = False"
| "truthy JUndefined = False"
| "truthy (JStr s) = (s \<noteq> [])"
| "truthy (JNum n) = truthy_number n"
| "truthy (JBool b) = b"
| "truthy (JObj es) = True"
| "truthy (JArr xs) = True"

text \<open>Reading a property of a record: \<open>undefined\<close> when the key is missing.\<close>

definition get_prop :: "jrecord \<Rightarrow> string \<Rightarrow> jv" where
  "get_prop r key = (case map_of r key of Some v \<Rightarrow> v | None \<Rightarrow> JUndefined)"

text \<open>The decimal form of an array index, as \<open>Object.entries\<close> of an array gives it.\<close>

definition digit_char :: "nat \<Rightarrow> char" where
  "digit_char d = ''0123456789'' ! d"

function String_nat :: "nat \<Rightarrow> string" where
  "String_nat n =
     (if n < 10 then [digit_char n] else String_nat (n div 10) @ [digit_char (n mod 10)])"
  by pat_completeness auto
termination
  by (relation "measure (\<lambda>n. n)") auto

declare String_nat.simps [simp del]

text \<open>\<open>Object.entries\<close> of a heap object.\<close>

fun own_entries :: "hobj \<Rightarrow> (string \<times> val) list" where
  "own_entries (HObj es) = es"
| "own_entries (HArr xs) = zip (map String_nat [0 ..< length xs]) xs"
| "own_entries (HErr name msg es) = es"

definition is_pollution_key :: "string \<Rightarrow> bool" where
  "is_pollution_key key \<longleftrightarrow>
     key = ''__proto__'' \<or> key = ''constructor'' \<or> key = ''prototype''"

definition truncated_marker :: jrecord where
  "truncated_marker = [(''_truncated'', JBool True)]"

definition circular_marker :: jrecord where
  "circular_marker = [(''_circular'', JBool True)]"

definition redacted :: jv where
  "redacted = JStr ''[REDACTED]''"

subsection \<open>safeSerializeDetails\<close>

text \<open>
  The \<open>WeakSet\<close> of visited objects is threaded through the traversal: every function
  takes the set and returns it updated. \<open>serialize_entries\<close> is the \<open>for\<close> loop over
  \<open>Object.entries(details)\<close>, \<open>serialize_items\<close> the \<open>map\<close> over the first 100
  elements of an array.
\<close>

function safeSerializeDetails :: "heap \<Rightarrow> addr \<Rightarrow> addr set \<Rightarrow> nat \<Rightarrow> jrecord \<times> addr set"
  and serialize_entries ::
    "heap \<Rightarrow> (string \<times> val) list \<Rightarrow> addr set \<Rightarrow> nat \<Rightarrow> jrecord \<times> addr set"
  and serialize_items :: "heap \<Rightarrow> val list \<Rightarrow> addr set \<Rightarrow> nat \<Rightarrow> jv list \<times> addr set"
where
  "safeSerializeDetails h obj seen depth =
     (if depth > 10 then (truncated_marker, seen)
      else if obj \<in> seen then (circular_marker, seen)
      else serialize_entries h (own_entries (h obj)) (insert obj seen) depth)"
| "serialize_entries h [] seen depth = ([], seen)"
| "serialize_entries h ((key, value) # rest) seen depth =
     (if is_pollution_key key then serialize_entries h rest seen depth
      else case value of
        VRef a \<Rightarrow>
          (case h a of
             HErr name msg own \<Rightarrow>
               (case serialize_entries h rest seen depth of
                  (result, seen') \<Rightarrow>
                    ((key, JObj [(''name'', JStr name), (''message'', JStr msg)]) # result,
                     seen'))
           | HArr items \<Rightarrow>
               (case serialize_items h (take 100 items) seen depth of
                  (mapped, seen1) \<Rightarrow>
                    (case serialize_entries h rest seen1 depth of
                       (result, seen') \<Rightarrow> ((key, JArr mapped) # result, seen')))
           | HObj own \<Rightarrow>
               (case safeSerializeDetails h a seen (depth + 1) of
                  (v, seen1) \<Rightarrow>
                    (case serialize_entries h rest seen1 depth of
                       (result, seen') \<Rightarrow> ((key, JObj v) # result, seen'))))
      | _ \<Rightarrow>
          (case serialize_entries h rest seen depth of
             (result, seen') \<Rightarrow> ((key, prim_jv value) # result, seen')))"
| "serialize_items h [] seen depth = ([], seen)"
| "serialize_items h (item # rest) seen depth =
     (case item of
        VRef a \<Rightarrow>
          (case safeSerializeDetails h a seen (depth + 1) of
             (v, seen1) \<Rightarrow>
               (case serialize_items h rest seen1 depth of
                  (mapped, seen') \<Rightarrow> (JObj v # mapped, seen')))
      | _ \<Rightarrow>
          (case serialize_items h rest seen depth of
             (mapped, seen') \<Rightarrow> (prim_jv item # mapped, seen')))"
  by pat_completeness auto
termination
  apply (relation "measures [
     (\<lambda>x. case x of Inl (h, a, s, d) \<Rightarrow> 12 - d
                   | Inr (Inl (h, es, s, d)) \<Rightarrow> 11 - d
                   | Inr (Inr (h, xs, s, d)) \<Rightarrow> 11 - d),
     (\<lambda>x. case x of Inl p \<Rightarrow> 0 | Inr (Inl p) \<Rightarrow> 2 | Inr (Inr p) \<Rightarrow> 1),
     (\<lambda>x. case x of Inl p \<Rightarrow> 0
                   | Inr (Inl (h, es, s, d)) \<Rightarrow> length es
                   | Inr (Inr (h, xs, s, d)) \<Rightarrow> length xs)]")
   apply auto
  done

declare safeSerializeDetails.simps [simp del] serialize_entries.simps(2) [simp del]
  serialize_items.simps(2) [simp del]

subsection \<open>maskSensitiveFields\<close>

definition is_sensitive :: "string list \<Rightarrow> string \<Rightarrow> bool" where
  "is_sensitive sens key \<longleftrightarrow> toLowerCase key \<in> set (map toLowerCase sens)"

fun maskSensitiveFields :: "jrecord \<Rightarrow> string list \<Rightarrow> nat \<Rightarrow> jrecord"
  and mask_entries :: "jrecord \<Rightarrow> string list \<Rightarrow> nat \<Rightarrow> jrecord"
where
  "maskSensitiveFields obj sens depth =
     (if depth > 10 then truncated_marker else mask_entries obj sens depth)"
| "mask_entries [] sens depth = []"
| "mask_entries ((key, value) # rest) sens depth =
     (if is_pollution_key key then mask_entries rest sens depth
      else if is_sensitive sens key then (key, redacted) # mask_entries rest sens depth
      else case value of
             JObj inner \<Rightarrow>
               (key, JObj (maskSensitiveFields inner sens (depth + 1)))
                 # mask_entries rest sens depth
           | _ \<Rightarrow> (key, value) # mask_entries rest sens depth)"

declare maskSensitiveFields.simps(1) [simp del]

subsection \<open>serializeError\<close>

datatype exception = Exception string

text \<open>
  A custom serializer is caller code: it returns a record or throws. The record it
  returns is taken as a finite tree.
\<close>

type_synonym ErrorSerializer = "error \<Rightarrow> exception + jrecord"

record SerializationOptions =
  includeStack :: bool
  maskSensitiveData :: bool
  sensitiveFields :: "string list"
  customSerializers :: "(cls \<times> ErrorSerializer) list option"

text \<open>\<open>Partial<SerializationOptions>\<close>: a missing key takes the default.\<close>

record PartialSerializationOptions =
  p_includeStack :: "bool option"
  p_maskSensitiveData :: "bool option"
  p_sensitiveFields :: "string list option"
  p_customSerializers :: "(cls \<times> ErrorSerializer) list option"

definition defaultOptions :: SerializationOptions where
  "defaultOptions =
     \<lparr> includeStack = False,
       maskSensitiveData = True,
       sensitiveFields = [''password'', ''token'', ''secret'', ''apiKey'', ''authorization''],
       customSerializers = None \<rparr>"

text \<open>\<open>{ ...defaultOptions, ...options }\<close>.\<close>

definition merge_options ::
  "SerializationOptions \<Rightarrow> PartialSerializationOptions \<Rightarrow> SerializationOptions" where
  "merge_options d options =
     \<lparr> includeStack = (case p_includeStack options of Some b \<Rightarrow> b | None \<Rightarrow> includeStack d),
       maskSensitiveData =
         (case p_maskSensitiveData options of Some b \<Rightarrow> b | None \<Rightarrow> maskSensitiveData d),
       sensitiveFields =
         (case p_sensitiveFields options of Some fs \<Rightarrow> fs | None \<Rightarrow> sensitiveFields d),
       customSerializers =
         (case p_customSerializers options of Some cs \<Rightarrow> Some cs | None \<Rightarrow> customSerializers d) \<rparr>"

record SerializedError =
  ser_code :: string
  ser_message :: string
  ser_statusCode :: number
  ser_details :: "addr option"
  ser_fields :: "FieldErrors option"
  ser_context :: "ErrorContext option"
  ser_stack :: "string option"

text \<open>\<open>ApiError.serialize(includeStack)\<close>.\<close>

definition serialize :: "error \<Rightarrow> bool \<Rightarrow> SerializedError" where
  "serialize this incl =
     \<lparr> ser_code = code this,
       ser_message = message this,
       ser_statusCode = statusCode this,
       ser_details = details this,
       ser_fields = fieldErrors this,
       ser_context = err_context this,
       ser_stack = (case stack this of
                      Some st \<Rightarrow> if incl \<and> st \<noteq> [] then Some st else None
                    | None \<Rightarrow> None) \<rparr>"

text \<open>
  The details of the result are either a record built by the serializer or the caller's
  own object, handed on by reference.
\<close>

datatype details_out = Fresh jrecord | Passed addr

record ErrorDetails =
  ed_code :: jv
  ed_message :: jv
  ed_details :: "details_out option"
  ed_fields :: "FieldErrors option"
  ed_stack :: "string option"

text \<open>The loop over \<open>opts.customSerializers\<close>: the first class that the error is an
  instance of selects the serializer.\<close>

fun find_serializer :: "error \<Rightarrow> (cls \<times> ErrorSerializer) list \<Rightarrow> ErrorSerializer option" where
  "find_serializer e [] = None"
| "find_serializer e ((ErrorClass, serializer) # rest) =
     (if instanceof e ErrorClass then Some serializer else find_serializer e rest)"

definition or_jv :: "jv \<Rightarrow> jv \<Rightarrow> jv" where
  "or_jv a b = (if truthy a then a else b)"

definition serializeError ::
  "heap \<Rightarrow> error \<Rightarrow> PartialSerializationOptions \<Rightarrow> exception + ErrorDetails" where
  "serializeError h e options =
     (let opts = merge_options defaultOptions options in
      case (case customSerializers opts of
              Some cs \<Rightarrow> find_serializer e cs
            | None \<Rightarrow> None) of
        Some serializer \<Rightarrow>
          (case serializer e of
             Inl ex \<Rightarrow> Inl ex
           | Inr customResult \<Rightarrow>
               Inr \<lparr> ed_code = or_jv (get_prop customResult ''code'') (JStr ''CUSTOM_ERROR''),
                     ed_message = or_jv (get_prop customResult ''message'') (JStr (message e)),
                     ed_details =
                       Some (Fresh (if maskSensitiveData opts
                                    then maskSensitiveFields customResult (sensitiveFields opts) 0
                                    else customResult)),
                     ed_fields = None,
                     ed_stack = None \<rparr>)
      | None \<Rightarrow>
          if instanceof e ApiError_cls then
            (let serialized = serialize e (includeStack opts);
                 dets = (case ser_details serialized of
                           Some a \<Rightarrow>
                             if maskSensitiveData opts
                             then Some (Fresh (maskSensitiveFields
                                                 (fst (safeSerializeDetails h a {} 0))
                                                 (sensitiveFields opts) 0))
                             else Some (Passed a)
                         | None \<Rightarrow> None)
             in Inr \<lparr> ed_code = JStr (ser_code serialized),
                      ed_message = JStr (ser_message serialized),
                      ed_details =
                        (case dets of
                           Some (Fresh r) \<Rightarrow> if r \<noteq> [] then Some (Fresh r) else None
                         | Some (Passed a) \<Rightarrow>
                             if own_entries (h a) \<noteq> [] then Some (Passed a) else None
                         | None \<Rightarrow> None),
                      ed_fields = ser_fields serialized,
                      ed_stack = (if includeStack opts then ser_stack serialized else None) \<rparr>)
          else
            Inr \<lparr> ed_code = JStr ''INTERNAL_ERROR'',
                  ed_message = JStr (if message e \<noteq> [] then message e
                                     else ''An unexpected error occurred''),
                  ed_details = None,
                  ed_fields = None,
                  ed_stack = (case stack e of
                                Some st \<Rightarrow>
                                  if includeStack opts \<and> st \<noteq> [] then Some st else None
                              | None \<Rightarrow> None) \<rparr>)"

section \<open>Vocabulary of the properties\<close>

text \<open>Alphanumeric ASCII characters, by character code.\<close>

definition is_alnum :: "char \<Rightarrow> bool" where
  "is_alnum c \<longleftrightarrow> (let n = (of_char c :: nat) in
      (48 \<le> n \<and> n \<le> 57) \<or> (65 \<le> n \<and> n \<le> 90) \<or> (97 \<le> n \<and> n \<le> 122))"

text \<open>A valid HTTP status: an integer from 100 to 599.\<close>

definition valid_http_status :: "number \<Rightarrow> bool" where
  "valid_http_status n \<longleftrightarrow> isInteger n \<and> le_number (Fin 100) n \<and> le_number n (Fin 599)"

text \<open>The pagination configuration used by the repository's tests.\<close>

definition example_config :: PaginationConfig where
  "example_config =
     \<lparr> defaultLimit = Fin 10, maxLimit = Fin 100, includeLinks = False, baseUrl = None \<rparr>"

text \<open>The custom serializer that \<open>serializeError\<close> selects for an error, if any.\<close>

definition selected_serializer :: "error \<Rightarrow> PartialSerializationOptions \<Rightarrow> ErrorSerializer option" where
  "selected_serializer e options =
     (case customSerializers (merge_options defaultOptions options) of
        Some cs \<Rightarrow> find_serializer e cs
      | None \<Rightarrow> None)"



text \<open>No key of any object, at any level and inside any array, is a pollution key.\<close>

fun no_pollution :: "jv \<Rightarrow> bool"
  and no_pollution_entries :: "jrecord \<Rightarrow> bool"
  and no_pollution_list :: "jv list \<Rightarrow> bool"
where
  "no_pollution (JObj r) = no_pollution_entries r"
| "no_pollution (JArr xs) = no_pollution_list xs"
| "no_pollution v = True"
| "no_pollution_entries [] = True"
| "no_pollution_entries ((k, v) # r) =
     (\<not> is_pollution_key k \<and> no_pollution v \<and> no_pollution_entries r)"
| "no_pollution_list [] = True"
| "no_pollution_list (v # vs) = (no_pollution v \<and> no_pollution_list vs)"

text \<open>How deep objects are nested in a value; an array adds no level of its own.\<close>

fun nesting :: "jv \<Rightarrow> nat"
  and nesting_entries :: "jrecord \<Rightarrow> nat"
  and nesting_list :: "jv list \<Rightarrow> nat"
where
  "nesting (JObj r) = Suc (nesting_entries r)"
| "nesting (JArr xs) = nesting_list xs"
| "nesting v = 0"
| "nesting_entries [] = 0"
| "nesting_entries ((k, v) # r) = max (nesting v) (nesting_entries r)"
| "nesting_list [] = 0"
| "nesting_list (v # vs) = max (nesting v) (nesting_list vs)"

text \<open>Every array, at any level, has at most \<open>n\<close> elements.\<close>

fun arrays_within :: "nat \<Rightarrow> jv \<Rightarrow> bool"
  and arrays_within_entries :: "nat \<Rightarrow> jrecord \<Rightarrow> bool"
  and arrays_within_list :: "nat \<Rightarrow> jv list \<Rightarrow> bool"
where
  "arrays_within n (JObj r) = arrays_within_entries n r"
| "arrays_within n (JArr xs) = (length xs \<le> n \<and> arrays_within_list n xs)"
| "arrays_within n v = True"
| "arrays_within_entries n [] = True"
| "arrays_within_entries n ((k, v) # r) = (arrays_within n v \<and> arrays_within_entries n r)"
| "arrays_within_list n [] = True"
| "arrays_within_list n (v # vs) = (arrays_within n v \<and> arrays_within_list n vs)"

text \<open>
  The object graph below a heap value is nested at most \<open>n\<close> objects deep. A cyclic
  graph is within no bound.
\<close>

fun heap_nested_within :: "heap \<Rightarrow> nat \<Rightarrow> val \<Rightarrow> bool"
  and heap_entries_within :: "heap \<Rightarrow> nat \<Rightarrow> (string \<times> val) list \<Rightarrow> bool"
where
  "heap_nested_within h 0 (VRef a) = False"
| "heap_nested_within h (Suc n) (VRef a) = heap_entries_within h n (own_entries (h a))"
| "heap_nested_within h n v = True"
| "heap_entries_within h n [] = True"
| "heap_entries_within h n ((k, v) # r) = (heap_nested_within h n v \<and> heap_entries_within h n r)"


subsection \<open>Inputs used as examples\<close>

text \<open>
  Heaps, errors and policies at which the properties are evaluated: the cyclic details
  and the nested credentials of the repository's tests, details with an array of
  objects, details with pollution keys, details that share an object and an array, and
  a chain of objects that reaches depth 11.
\<close>

definition empty_heap :: heap where
  "empty_heap = (\<lambda>a. HObj [])"

definition test_error :: "addr \<Rightarrow> error" where
  "test_error a = new_ApiError None ''Test'' (no_options\<lparr> opt_details := Some a \<rparr>)"

definition default_policy :: PartialSerializationOptions where
  "default_policy = \<lparr> p_includeStack = None, p_maskSensitiveData = None,
     p_sensitiveFields = None, p_customSerializers = None \<rparr>"

definition mask_off :: PartialSerializationOptions where
  "mask_off = default_policy \<lparr> p_maskSensitiveData := Some False \<rparr>"



definition pollution_heap :: heap where
  "pollution_heap = empty_heap
     (0 := HObj [(''constructor'', VRef 1), (''safe'', VStr ''data'')],
      1 := HObj [(''polluted'', VBool True)])"

definition nested_heap :: heap where
  "nested_heap = empty_heap
     (0 := HObj [(''user'', VRef 1)],
      1 := HObj [(''name'', VStr ''john''), (''credentials'', VRef 2), (''__proto__'', VRef 3)],
      2 := HObj [(''apiKey'', VStr ''sk-12345''), (''Token'', VStr ''jwt-token'')],
      3 := HObj [(''bad'', VBool True)])"




definition nested_policy :: PartialSerializationOptions where
  "nested_policy = default_policy \<lparr> p_sensitiveFields := Some [''apiKey'', ''token''] \<rparr>"

definition throwing_policy :: PartialSerializationOptions where
  "throwing_policy =
     default_policy \<lparr> p_customSerializers := Some [(Error_cls, \<lambda>e. Inl (Exception ''boom''))] \<rparr>"

definition list_policy :: PartialSerializationOptions where
  "list_policy =
     default_policy \<lparr> p_customSerializers :=
       Some [(Error_cls, \<lambda>e. Inr [(''code'', JStr ''CUSTOM''),
                                  (''list'', JArr [JObj [(''constructor'', JStr ''x'')]])])] \<rparr>"

section \<open>Status code resolution\<close>

lemma scan_mappings_find:
  "scan_mappings e m = map_option snd (find (\<lambda>(c, sc). instanceof e c) m)"
  by (induction m) auto

text \<open>
  Claim C4. Status resolution is first-match-wins: an instance of \<open>ApiError\<close> yields its
  own \<open>statusCode\<close>, whatever it is and whatever the registries hold; otherwise the first
  custom mapping whose class the error is an instance of (its own class or a superclass)
  decides; otherwise the first such built-in mapping; otherwise 500.
\<close>

theorem getStatusCode_first_match:
  "getStatusCode customMappings e =
     (if instanceof e ApiError_cls then statusCode e
      else case find (\<lambda>(c, sc). instanceof e c) customMappings of
             Some (c, sc) \<Rightarrow> sc
           | None \<Rightarrow>
               (case find (\<lambda>(c, sc). instanceof e c) defaultErrorMappings of
                  Some (c, sc) \<Rightarrow> sc
                | None \<Rightarrow> Fin 500))"
  by (simp add: getStatusCode_def scan_mappings_find split: option.splits)

text \<open>
  At concrete errors: a \<open>ValidationError\<close> keeps its 400 although a custom mapping says
  422; a user class derived from \<open>Error\<close> takes the first matching custom mapping, here
  the one of its superclass; a plain \<open>Error\<close> with no mapping gets 500.
\<close>

theorem getStatusCode_first_match_witness:
  "getStatusCode [(ValidationError, Fin 422)]
     (new_ValidationError None ''Invalid'' None no_options)
     = Fin 400
   \<and> getStatusCode [(Error_cls, Fin 418), (UserClass ''CustomError'' Error_cls, Fin 422)]
        \<lparr> err_class = UserClass ''CustomError'' Error_cls, message = ''test'', stack = None,
          code = [], statusCode = NaN, details = None, fieldErrors = None, err_context = None,
          isOperational = False \<rparr>
     = Fin 418
   \<and> getStatusCode []
        \<lparr> err_class = Error_cls, message = ''unknown'', stack = None,
          code = [], statusCode = NaN, details = None, fieldErrors = None, err_context = None,
          isOperational = False \<rparr>
     = Fin 500"
  by (simp add: getStatusCode_first_match instanceof_def new_ValidationError_def
        ApiError_constructor_def no_options_def or_number_def defaultErrorMappings_def)

text \<open>
  Claim C5. The success status depends on the method only through its upper-case form:
  200 for GET, PUT, PATCH, HEAD and OPTIONS, 201 for POST, 204 for DELETE with or without
  a body, and 200 for every other method.
\<close>

theorem getSuccessStatusCode_table:
  "getSuccessStatusCode method hasData =
     (if toUpperCase method \<in> {''GET'', ''PUT'', ''PATCH'', ''HEAD'', ''OPTIONS''} then Fin 200
      else if toUpperCase method = ''POST'' then Fin 201
      else if toUpperCase method = ''DELETE'' then Fin 204
      else Fin 200)"
  by (simp add: getSuccessStatusCode_def methodStatusCodes_def or_number_def Let_def)

theorem getSuccessStatusCode_table_witness:
  "getSuccessStatusCode ''DELETE'' True = Fin 204
   \<and> getSuccessStatusCode ''delete'' False = Fin 204
   \<and> getSuccessStatusCode ''Post'' True = Fin 201
   \<and> getSuccessStatusCode ''get'' True = Fin 200
   \<and> getSuccessStatusCode ''CUSTOM'' True = Fin 200"
  by (simp add: getSuccessStatusCode_table toUpperCase_def toUpperCase_char_def)

section \<open>Cursor extraction\<close>

lemma cursor_char_iff:
  "cursor_char c \<longleftrightarrow>
     is_alnum c \<or> c \<in> {CHR ''+'', CHR ''/'', CHR ''='', CHR ''_'', CHR ''-''}"
  by (cases c) (simp add: cursor_char_def is_alnum_def Let_def)

text \<open>
  Claim C8. The cursor that \<open>extractCursorFromRequest\<close> returns is the query value itself
  when that is a non-empty string of at most 512 characters, each alphanumeric or one of
  \<open>+/=_-\<close>; in every other case (another character, a longer string, the empty string, a
  value that is not a string) it is \<open>undefined\<close>. The function returns a value in every
  case: nothing is thrown.
\<close>

theorem extractCursorFromRequest_cursor:
  "cp_cursor (extractCursorFromRequest parseInt config req) =
     (case query_cursor req of
        QString s \<Rightarrow>
          if s \<noteq> [] \<and> length s \<le> 512
             \<and> (\<forall>c \<in> set s. is_alnum c
                    \<or> c \<in> {CHR ''+'', CHR ''/'', CHR ''='', CHR ''_'', CHR ''-''})
          then Some s else None
      | _ \<Rightarrow> None)"
  by (auto simp: extractCursorFromRequest_def validateCursor_def cursor_regex_test_def
        list_all_iff cursor_char_iff split: qparam.splits)

text \<open>
  The cursors of the repository's tests: an SQL injection pattern, a string of 513
  characters and a repeated parameter are dropped; a base64 cursor is returned as it is.
\<close>

theorem extractCursorFromRequest_cursor_witness:
  "cp_cursor (extractCursorFromRequest (\<lambda>s. NaN) example_config
      \<lparr> query_cursor = QString (CHR 0x27 # ''; DROP TABLE x; --''),
        query_limit = QString ''10'', query_page = QUndefined \<rparr>) = None
   \<and> cp_cursor (extractCursorFromRequest (\<lambda>s. NaN) example_config
      \<lparr> query_cursor = QString (replicate 513 (CHR ''a'')),
        query_limit = QString ''10'', query_page = QUndefined \<rparr>) = None
   \<and> cp_cursor (extractCursorFromRequest (\<lambda>s. NaN) example_config
      \<lparr> query_cursor = QArray [''abc''],
        query_limit = QUndefined, query_page = QUndefined \<rparr>) = None
   \<and> cp_cursor (extractCursorFromRequest (\<lambda>s. NaN) example_config
      \<lparr> query_cursor = QString ''eyJpZCI6MTIzfQ=='',
        query_limit = QString ''10'', query_page = QUndefined \<rparr>) = Some ''eyJpZCI6MTIzfQ=='' "
  by (simp add: extractCursorFromRequest_cursor is_alnum_def)

section \<open>Status of constructed errors\<close>

lemmas predefined_defs =
  new_ValidationError_def new_NotFoundError_def new_UnauthorizedError_def
  new_ForbiddenError_def new_ConflictError_def new_InternalServerError_def
  new_BadRequestError_def new_RateLimitError_def new_ServiceUnavailableError_def
  new_UnprocessableEntityError_def

text \<open>
  Claim C9, as stated, fails: the constructor stores any truthy \<open>options.statusCode\<close>,
  so \<open>new ApiError('Test', { statusCode: 9999 })\<close> has status 9999.
\<close>

theorem ApiError_statusCode_counterexample:
  "\<not> valid_http_status
       (statusCode (new_ApiError None ''Test''
          (no_options\<lparr> opt_statusCode := Some (Fin 9999) \<rparr>)))"
  by (simp add: valid_http_status_def new_ApiError_def ApiError_constructor_def no_options_def
        or_number_def)

text \<open>
  Claim C9, amended. A base \<open>ApiError\<close> has the supplied \<open>statusCode\<close> when that is
  truthy (neither 0 nor \<open>NaN\<close>) and 500 otherwise, with no range check; a copy made by
  \<open>withContext\<close> keeps the status of the original (500 if that is falsy); each predefined
  subclass has its fixed status whatever the options are, and each of those nine numbers
  is a valid HTTP status.
\<close>

theorem ApiError_statusCode:
  "statusCode (new_ApiError st msg options) =
     (case opt_statusCode options of
        Some n \<Rightarrow> if truthy_number n then n else Fin 500
      | None \<Rightarrow> Fin 500)
   \<and> statusCode (withContext this st ctx) =
       (if truthy_number (statusCode this) then statusCode this else Fin 500)
   \<and> statusCode (new_ValidationError st msg fs options) = Fin 400
   \<and> statusCode (new_NotFoundError st msg options) = Fin 404
   \<and> statusCode (new_UnauthorizedError st msg options) = Fin 401
   \<and> statusCode (new_ForbiddenError st msg options) = Fin 403
   \<and> statusCode (new_ConflictError st msg options) = Fin 409
   \<and> statusCode (new_InternalServerError st msg options) = Fin 500
   \<and> statusCode (new_BadRequestError st msg options) = Fin 400
   \<and> statusCode (new_RateLimitError st msg ra options) = Fin 429
   \<and> statusCode (new_ServiceUnavailableError st msg options) = Fin 503
   \<and> statusCode (new_UnprocessableEntityError st msg options) = Fin 422
   \<and> valid_http_status (Fin 400) \<and> valid_http_status (Fin 401) \<and> valid_http_status (Fin 403)
   \<and> valid_http_status (Fin 404) \<and> valid_http_status (Fin 409) \<and> valid_http_status (Fin 422)
   \<and> valid_http_status (Fin 429) \<and> valid_http_status (Fin 500) \<and> valid_http_status (Fin 503)"
  by (simp add: predefined_defs new_ApiError_def withContext_def ApiError_constructor_def
        or_number_def valid_http_status_def split: option.splits)

theorem ApiError_statusCode_witness:
  "statusCode (new_ApiError None ''Test''
      (no_options\<lparr> opt_statusCode := Some (Fin 418) \<rparr>)) = Fin 418
   \<and> statusCode (new_ApiError None ''Test''
        (no_options\<lparr> opt_statusCode := Some (Fin 0) \<rparr>)) = Fin 500
   \<and> statusCode (new_ApiError None ''Test'' no_options) = Fin 500
   \<and> statusCode (withContext (new_NotFoundError None ''gone'' no_options) None
         [(''requestId'', VStr ''r1'')]) = Fin 404"
  by (simp add: ApiError_statusCode no_options_def)

section \<open>Pagination input\<close>

text \<open>
  Claim C7 at the input \<open>{ page: Infinity, limit: Infinity, total: Infinity }\<close> of the
  repository's own test: the limit is clamped to the maximum, but the page comes back as
  \<open>Infinity\<close>, which is not a finite integer.
\<close>

theorem validatePaginationInput_infinite_page:
  "validatePaginationInput
     \<lparr> in_page = Some Infinity, in_limit = Some Infinity, in_total = Some Infinity \<rparr>
     example_config
   = \<lparr> page = Infinity, limit = Fin 100, total = Infinity \<rparr>
   \<and> \<not> isFinite (page (validatePaginationInput
         \<lparr> in_page = Some Infinity, in_limit = Some Infinity, in_total = Some Infinity \<rparr>
         example_config))"
  by (simp add: validatePaginationInput_def example_config_def or_number_def)

text \<open>
  What does hold: the page is an integer from 1 on for every input page but \<open>Infinity\<close>,
  and the limit is an integer between 1 and the maximum when the configured maximum is
  an integer from 1 on and the configured default is finite.
\<close>

lemma validatePaginationInput_page:
  assumes "in_page input \<noteq> Some Infinity"
  shows "isInteger (page (validatePaginationInput input config))
         \<and> le_number (Fin 1) (page (validatePaginationInput input config))"
proof (cases "in_page input")
  case None
  then show ?thesis by (simp add: validatePaginationInput_def or_number_def)
next
  case (Some n)
  with assms show ?thesis
    by (cases n) (auto simp: validatePaginationInput_def or_number_def max_def)
qed

lemma max_one_floor:
  "n \<noteq> NaN \<Longrightarrow>
   Math_max (Fin 1) (Math_floor n) = Infinity
   \<or> (\<exists>x. Math_max (Fin 1) (Math_floor n) = Fin x \<and> x \<in> \<int> \<and> 1 \<le> x)"
  by (cases n) (auto simp: max_def)

lemma or_number_not_NaN: "or_number n (Fin d) \<noteq> NaN"
  by (cases n) (auto simp: or_number_def)

lemma validatePaginationInput_limit:
  assumes "maxLimit config = Fin m" "1 \<le> m" "m \<in> \<int>"
    and "defaultLimit config = Fin d"
  shows "isInteger (limit (validatePaginationInput input config))
         \<and> le_number (Fin 1) (limit (validatePaginationInput input config))
         \<and> le_number (limit (validatePaginationInput input config)) (maxLimit config)"
proof -
  let ?v = "Math_max (Fin 1) (Math_floor (or_number (Number (in_limit input)) (Fin d)))"
  have lim: "limit (validatePaginationInput input config) = Math_min (Fin m) ?v"
    using assms by (simp add: validatePaginationInput_def)
  from max_one_floor [OF or_number_not_NaN]
  have "?v = Infinity \<or> (\<exists>x. ?v = Fin x \<and> x \<in> \<int> \<and> 1 \<le> x)" .
  then show ?thesis
    using assms(1-3) unfolding lim by (auto simp: min_def)
qed

section \<open>The sanitizing traversal\<close>

text \<open>The equations of the traversal, one per branch of the source.\<close>

lemma safeSerializeDetails_deep:
  "10 < d \<Longrightarrow> safeSerializeDetails h a seen d = (truncated_marker, seen)"
  by (simp add: safeSerializeDetails.simps(1))



lemma serialize_entries_pollution:
  "is_pollution_key k \<Longrightarrow>
   serialize_entries h ((k, v) # rest) seen d = serialize_entries h rest seen d"
  by (simp add: serialize_entries.simps(2))

lemma serialize_entries_prim:
  "\<not> is_pollution_key k \<Longrightarrow> (\<forall>a. v \<noteq> VRef a) \<Longrightarrow>
   serialize_entries h ((k, v) # rest) seen d =
     ((k, prim_jv v) # fst (serialize_entries h rest seen d),
      snd (serialize_entries h rest seen d))"
  by (cases v) (simp_all add: serialize_entries.simps(2) serialize_items.simps(2) split_beta)

lemma serialize_entries_error:
  "\<not> is_pollution_key k \<Longrightarrow> h a = HErr n m own \<Longrightarrow>
   serialize_entries h ((k, VRef a) # rest) seen d =
     ((k, JObj [(''name'', JStr n), (''message'', JStr m)]) # fst (serialize_entries h rest seen d),
      snd (serialize_entries h rest seen d))"
  by (simp add: serialize_entries.simps(2) split_beta)

lemma serialize_entries_array:
  "\<not> is_pollution_key k \<Longrightarrow> h a = HArr items \<Longrightarrow>
   serialize_entries h ((k, VRef a) # rest) seen d =
     (let m = serialize_items h (take 100 items) seen d;
          r = serialize_entries h rest (snd m) d
      in ((k, JArr (fst m)) # fst r, snd r))"
  by (simp add: serialize_entries.simps(2) serialize_items.simps(2) split_beta Let_def)

lemma serialize_entries_object:
  "\<not> is_pollution_key k \<Longrightarrow> h a = HObj own \<Longrightarrow>
   serialize_entries h ((k, VRef a) # rest) seen d =
     (let v = safeSerializeDetails h a seen (d + 1);
          r = serialize_entries h rest (snd v) d
      in ((k, JObj (fst v)) # fst r, snd r))"
  by (simp add: serialize_entries.simps(2) serialize_items.simps(2) split_beta Let_def)

lemma serialize_items_prim:
  "(\<forall>a. v \<noteq> VRef a) \<Longrightarrow>
   serialize_items h (v # rest) seen d =
     (prim_jv v # fst (serialize_items h rest seen d), snd (serialize_items h rest seen d))"
  by (cases v) (simp_all add: serialize_entries.simps(2) serialize_items.simps(2) split_beta)

lemma serialize_items_ref:
  "serialize_items h (VRef a # rest) seen d =
     (let v = safeSerializeDetails h a seen (d + 1);
          r = serialize_items h rest (snd v) d
      in (JObj (fst v) # fst r, snd r))"
  by (simp add: serialize_entries.simps(2) serialize_items.simps(2) split_beta Let_def)

text \<open>
  Induction over the traversal, one case per branch, with the visited set of each later
  call written as the set that the earlier call returned.
\<close>

lemma sanitize_induct [case_names visit nil pollution prim error array object inil iprim iref]:
  assumes visit: "\<And>h obj seen depth.
      (\<not> 10 < depth \<Longrightarrow> obj \<notin> seen \<Longrightarrow> Q h (own_entries (h obj)) (insert obj seen) depth)
      \<Longrightarrow> P h obj seen depth"
    and nil: "\<And>h seen depth. Q h [] seen depth"
    and pollution: "\<And>h key v rest seen depth.
      is_pollution_key key \<Longrightarrow> Q h rest seen depth \<Longrightarrow> Q h ((key, v) # rest) seen depth"
    and prim: "\<And>h key v rest seen depth.
      \<not> is_pollution_key key \<Longrightarrow> \<forall>a. v \<noteq> VRef a \<Longrightarrow> Q h rest seen depth
      \<Longrightarrow> Q h ((key, v) # rest) seen depth"
    and error: "\<And>h key a n m own rest seen depth.
      \<not> is_pollution_key key \<Longrightarrow> h a = HErr n m own \<Longrightarrow> Q h rest seen depth
      \<Longrightarrow> Q h ((key, VRef a) # rest) seen depth"
    and array: "\<And>h key a items rest seen depth.
      \<not> is_pollution_key key \<Longrightarrow> h a = HArr items \<Longrightarrow> R h (take 100 items) seen depth
      \<Longrightarrow> Q h rest (snd (serialize_items h (take 100 items) seen depth)) depth
      \<Longrightarrow> Q h ((key, VRef a) # rest) seen depth"
    and object: "\<And>h key a own rest seen depth.
      \<not> is_pollution_key key \<Longrightarrow> h a = HObj own \<Longrightarrow> P h a seen (depth + 1)
      \<Longrightarrow> Q h rest (snd (safeSerializeDetails h a seen (depth + 1))) depth
      \<Longrightarrow> Q h ((key, VRef a) # rest) seen depth"
    and inil: "\<And>h seen depth. R h [] seen depth"
    and iprim: "\<And>h v rest seen depth.
      \<forall>a. v \<noteq> VRef a \<Longrightarrow> R h rest seen depth \<Longrightarrow> R h (v # rest) seen depth"
    and iref: "\<And>h a rest seen depth.
      P h a seen (depth + 1)
      \<Longrightarrow> R h rest (snd (safeSerializeDetails h a seen (depth + 1))) depth
      \<Longrightarrow> R h (VRef a # rest) seen depth"
  shows "P h a seen d" and "Q h es seen d" and "R h xs seen d"
proof (induction h a seen d and h es seen d and h xs seen d
       rule: safeSerializeDetails_serialize_entries_serialize_items.induct)
  case (1 h obj seen depth)
  then show ?case by (intro visit) simp
next
  case (2 h seen depth)
  show ?case by (rule nil)
next
  case (3 h key v rest seen depth)
  show ?case
  proof (cases "is_pollution_key key")
    case True
    then show ?thesis using 3(1) pollution by blast
  next
    case np: False
    show ?thesis
    proof (cases "\<exists>a. v = VRef a")
      case False
      then have "Q h rest seen depth"
        using 3(2-6) np by (cases v) auto
      with False np show ?thesis by (intro prim) auto
    next
      case True
      then obtain a where v: "v = VRef a" by blast
      show ?thesis
      proof (cases "h a")
        case (HObj own)
        show ?thesis unfolding v
          using object [OF np HObj "3"(7) [OF np v HObj] "3"(8) [OF np v HObj prod.collapse]] .
      next
        case (HArr items)
        show ?thesis unfolding v
          using array [OF np HArr "3"(9) [OF np v HArr] "3"(10) [OF np v HArr prod.collapse]] .
      next
        case (HErr n m own)
        show ?thesis unfolding v
          using error [OF np HErr "3"(11) [OF np v HErr]] .
      qed
    qed
  qed
next
  case (4 h seen depth)
  show ?case by (rule inil)
next
  case (5 h item rest seen depth)
  show ?case
  proof (cases "\<exists>a. item = VRef a")
    case False
    then have "R h rest seen depth"
      using 5(1-5) by (cases item) auto
    with False show ?thesis by (intro iprim) auto
  next
    case True
    then obtain a where v: "item = VRef a" by blast
    show ?thesis unfolding v
      using iref [OF "5"(6) [OF v] "5"(7) [OF v prod.collapse]] .
  qed
qed


lemma no_pollution_prim [simp]: "no_pollution (prim_jv v)"
  by (cases v) simp_all

lemma nesting_prim [simp]: "nesting (prim_jv v) = 0"
  by (cases v) simp_all

lemma arrays_within_prim [simp]: "arrays_within n (prim_jv v)"
  by (cases v) simp_all

lemma markers_clean [simp]:
  "no_pollution_entries truncated_marker" "no_pollution_entries circular_marker"
  "nesting_entries truncated_marker = 0" "nesting_entries circular_marker = 0"
  "arrays_within_entries n truncated_marker" "arrays_within_entries n circular_marker"
  by (simp_all add: truncated_marker_def circular_marker_def is_pollution_key_def)

text \<open>What the traversal builds: no pollution key, no array above 100 elements, and
  at most \<open>11 - depth\<close> levels of objects below the record built at \<open>depth\<close>.\<close>

lemma sanitized_no_pollution:
  "no_pollution_entries (fst (safeSerializeDetails h a seen d))"
  "no_pollution_entries (fst (serialize_entries h es seen d))"
  "no_pollution_list (fst (serialize_items h xs seen d))"
proof (induction h a seen d and h es seen d and h xs seen d rule: sanitize_induct)
  case (visit h obj seen depth)
  then show ?case by (simp add: safeSerializeDetails.simps(1))
next
  case (error h key a n m own rest seen depth)
  then show ?case by (simp add: serialize_entries_error is_pollution_key_def)
qed (simp_all add: serialize_entries_pollution serialize_entries_prim serialize_entries_array
       serialize_entries_object serialize_items_prim serialize_items_ref Let_def)




section \<open>Masking\<close>

lemma maskSensitiveFields_deep:
  "10 < d \<Longrightarrow> maskSensitiveFields r sens d = truncated_marker"
  by (simp add: maskSensitiveFields.simps(1))






lemma mask_no_pollution:
  "no_pollution_entries r \<Longrightarrow> no_pollution_entries (maskSensitiveFields r sens d)"
  "no_pollution_entries r \<Longrightarrow> no_pollution_entries (mask_entries r sens d)"
proof (induction r sens d and r sens d rule: maskSensitiveFields_mask_entries.induct)
  case (1 obj sens depth)
  then show ?case by (simp add: maskSensitiveFields.simps(1))
next
  case (2 sens depth)
  show ?case by simp
next
  case (3 key v rest sens depth)
  then show ?case by (cases v) (auto simp: redacted_def)
qed



section \<open>Serializing an error\<close>

lemmas eval_simps =
  serializeError_def merge_options_def defaultOptions_def instanceof_def test_error_def
  new_ApiError_def ApiError_constructor_def no_options_def serialize_def
  safeSerializeDetails.simps serialize_entries.simps(2) serialize_items.simps(2)
  maskSensitiveFields.simps(1) is_pollution_key_def is_sensitive_def
  toLowerCase_def toLowerCase_char_def truncated_marker_def circular_marker_def redacted_def
  default_policy_def mask_off_def empty_heap_def selected_serializer_def or_number_def Let_def
  throwing_policy_def list_policy_def nested_policy_def get_prop_def or_jv_def



lemma serializeError_masked_details:
  assumes "maskSensitiveData (merge_options defaultOptions options)"
    and "serializeError h e options = Inr res"
    and "ed_details res = Some d"
  shows "\<exists>t0. d = Fresh (maskSensitiveFields t0
                    (sensitiveFields (merge_options defaultOptions options)) 0)
           \<and> ((\<exists>s. selected_serializer e options = Some s \<and> s e = Inr t0)
              \<or> (\<exists>a. selected_serializer e options = None \<and> details e = Some a
                     \<and> t0 = fst (safeSerializeDetails h a {} 0)))"
  using assms
  by (auto simp: serializeError_def selected_serializer_def serialize_def Let_def
           split: option.splits sum.splits if_splits details_out.splits)



















text \<open>
  Claim C6, amended. When no custom serializer is selected and masking is enabled, the
  details of the result, if any, are a freshly built record in which no object, at any
  level and inside any array, has a key \<open>__proto__\<close>, \<open>constructor\<close> or \<open>prototype\<close>.
\<close>

theorem serializeError_drops_pollution_keys:
  assumes "selected_serializer e options = None"
    and "maskSensitiveData (merge_options defaultOptions options)"
    and "serializeError h e options = Inr res"
    and "ed_details res = Some d"
  shows "\<exists>t. d = Fresh t \<and> no_pollution_entries t"
proof -
  from serializeError_masked_details [OF assms(2-4)] assms(1)
  obtain a where "d = Fresh (maskSensitiveFields (fst (safeSerializeDetails h a {} 0))
                     (sensitiveFields (merge_options defaultOptions options)) 0)"
    by auto
  then show ?thesis
    by (simp add: mask_no_pollution(1) sanitized_no_pollution(1))
qed

text \<open>Details whose nested object has a \<open>__proto__\<close> key, with the default policy.\<close>

theorem serializeError_drops_pollution_keys_witness:
  "selected_serializer (test_error 0) default_policy = None
   \<and> maskSensitiveData (merge_options defaultOptions default_policy)
   \<and> serializeError nested_heap (test_error 0) default_policy =
       Inr \<lparr> ed_code = JStr ''INTERNAL_ERROR'', ed_message = JStr ''Test'',
             ed_details = Some (Fresh
               [(''user'', JObj [(''name'', JStr ''john''),
                  (''credentials'', JObj [(''apiKey'', JStr ''[REDACTED]''),
                                          (''Token'', JStr ''[REDACTED]'')])])]),
             ed_fields = None, ed_stack = None \<rparr>
   \<and> no_pollution_entries
        [(''user'', JObj [(''name'', JStr ''john''),
           (''credentials'', JObj [(''apiKey'', JStr ''[REDACTED]''),
                                   (''Token'', JStr ''[REDACTED]'')])])]
   \<and> map_of (own_entries (nested_heap 1)) ''__proto__'' = Some (VRef 3)"
proof -
  let ?T = "[(''user'', JObj [(''name'', JStr ''john''),
           (''credentials'', JObj [(''apiKey'', JStr ''[REDACTED]''),
                                   (''Token'', JStr ''[REDACTED]'')])])]"
  let ?R = "\<lparr> ed_code = JStr ''INTERNAL_ERROR'', ed_message = JStr ''Test'',
             ed_details = Some (Fresh ?T), ed_fields = None, ed_stack = None \<rparr>"
  have 1: "selected_serializer (test_error 0) default_policy = None"
    and 2: "maskSensitiveData (merge_options defaultOptions default_policy)"
    by (simp_all add: eval_simps)
  have 3: "serializeError nested_heap (test_error 0) default_policy = Inr ?R"
    by (simp add: eval_simps nested_heap_def)
  have 4: "ed_details ?R = Some (Fresh ?T)" by simp
  from serializeError_drops_pollution_keys [OF 1 2 3 4]
  have 5: "no_pollution_entries ?T" by simp
  have 6: "map_of (own_entries (nested_heap 1)) ''__proto__'' = Some (VRef 3)"
    by (simp add: nested_heap_def)
  from 1 2 3 5 6 show ?thesis by simp
qed

text \<open>
  Claim C6, as stated for every policy, fails twice: with masking disabled the details
  are the caller's object, \<open>constructor\<close> key included; and the result of a custom
  serializer is only masked, and masking does not look into arrays, so a \<open>constructor\<close>
  key of an object inside an array stays.
\<close>

theorem serializeError_keeps_pollution_keys_counterexample:
  "serializeError pollution_heap (test_error 0) mask_off =
     Inr \<lparr> ed_code = JStr ''INTERNAL_ERROR'', ed_message = JStr ''Test'',
           ed_details = Some (Passed 0), ed_fields = None, ed_stack = None \<rparr>
   \<and> map_of (own_entries (pollution_heap 0)) ''constructor'' = Some (VRef 1)
   \<and> serializeError empty_heap (test_error 0) list_policy =
     Inr \<lparr> ed_code = JStr ''CUSTOM'', ed_message = JStr ''Test'',
           ed_details = Some (Fresh
             [(''code'', JStr ''CUSTOM''),
              (''list'', JArr [JObj [(''constructor'', JStr ''x'')]])]),
           ed_fields = None, ed_stack = None \<rparr>
   \<and> \<not> no_pollution_entries
         [(''code'', JStr ''CUSTOM''),
          (''list'', JArr [JObj [(''constructor'', JStr ''x'')]])]"
  by (simp add: eval_simps pollution_heap_def)

end
